theory Spec2Isabelle
  imports Main "HOL-Library.AList" "HOL-Library.Sublist"
begin

section \<open>RouteUtil: a convention-based route builder (src/node-js-example.ts)\<close>

text \<open>
  The class \<open>RouteUtil\<close> walks a folder tree of controller modules and registers one
  route per controller method on an express router. The embedding has two parts: the
  request-time adapter (\<open>resultSend\<close>, \<open>errorChecker\<close>, \<open>getControllerMethod\<close>) and the
  start-up scan (\<open>buildSubFolderRoutes\<close>, \<open>buildController\<close> and what they call).

  The collaborators that the class only calls into are recorded, not implemented:
  \<open>res.json\<close> and \<open>next\<close> append their argument to a list of calls, \<open>router[verb]\<close>
  appends a route, and the libraries (change-case, the middleware service) are fields
  of an environment record.
\<close>

subsection \<open>JavaScript values and the request-time state\<close>

text \<open>
  The values a controller method may return: the JSON values, \<open>undefined\<close> and \<open>NaN\<close>.
  Numbers are integers (plus \<open>NaN\<close>): the code only asks whether a number is \<open>0\<close>.
  An object is a plain object, the list of its own enumerable properties, all of them
  data. Objects with function-valued members (a \<open>toJSON\<close> method, a callable
  \<open>hasOwnProperty\<close>) and instances of classes are not values of this type.
\<close>

datatype jsval =
    JUndefined
  | JNull
  | JBool bool
  | JNum int
  | JNaN
  | JStr string
  | JArr "jsval list"
  | JObj "(string \<times> jsval) list"

text \<open>\<open>ToBoolean\<close>: what \<open>!result\<close> and \<open>result && ...\<close> test.\<close>

fun truthy :: "jsval \<Rightarrow> bool" where
  "truthy JUndefined = False"
| "truthy JNull = False"
| "truthy (JBool b) = b"
| "truthy (JNum n) = (n \<noteq> 0)"
| "truthy JNaN = False"
| "truthy (JStr s) = (s \<noteq> [])"
| "truthy (JArr xs) = True"
| "truthy (JObj kvs) = True"

text \<open>
  What the built-in \<open>Object.prototype.hasOwnProperty\<close> answers for \<open>'password'\<close>. An
  array or a string owns its indices and \<open>length\<close> only, a number or a boolean owns
  nothing.
\<close>

fun ownsPassword :: "jsval \<Rightarrow> bool" where
  "ownsPassword (JObj kvs) = (''password'' \<in> fst ` set kvs)"
| "ownsPassword v = False"

text \<open>The result is an object with an own property named \<open>hasOwnProperty\<close>.\<close>

fun ownsHasOwnProperty :: "jsval \<Rightarrow> bool" where
  "ownsHasOwnProperty (JObj kvs) = (''hasOwnProperty'' \<in> fst ` set kvs)"
| "ownsHasOwnProperty v = False"

text \<open>
  The call \<open>result.hasOwnProperty('password')\<close>; \<open>Inl\<close> is the value thrown. The member
  is looked up on the result itself: an own property of that name shadows the built-in
  method, and its value, being data, cannot be called. On \<open>undefined\<close> and \<open>null\<close> the
  lookup itself throws.
\<close>

fun hasOwnProperty_password :: "jsval \<Rightarrow> jsval + bool" where
  "hasOwnProperty_password (JObj kvs) =
     (if ''hasOwnProperty'' \<in> fst ` set kvs
      then Inl (JStr ''TypeError: result.hasOwnProperty is not a function'')
      else Inr (''password'' \<in> fst ` set kvs))"
| "hasOwnProperty_password JUndefined =
     Inl (JStr ''TypeError: Cannot read properties of undefined'')"
| "hasOwnProperty_password JNull =
     Inl (JStr ''TypeError: Cannot read properties of null'')"
| "hasOwnProperty_password v = Inr False"

text \<open>\<open>delete result.password\<close>.\<close>

fun delete_password :: "jsval \<Rightarrow> jsval" where
  "delete_password (JObj kvs) = JObj (AList.delete ''password'' kvs)"
| "delete_password v = v"

text \<open>
  What one request has done so far to \<open>res\<close> and \<open>next\<close>: the status code of the
  response, the bodies handed to \<open>res.json\<close>, and the arguments of the calls of \<open>next\<close>
  (\<open>None\<close> for \<open>next()\<close>, \<open>Some e\<close> for \<open>next(e)\<close>).
\<close>

record exchange =
  statusCode :: int
  jsonCalls :: "jsval list"
  nextCalls :: "jsval option list"

text \<open>One entry of \<open>validationResult(req).array()\<close>.\<close>

record verror =
  param :: string
  msg :: string

record request =
  validationErrors :: "verror list"

datatype error = ValidationError string | TypeError string

text \<open>
  How the awaited call \<open>controller[methodName](req, res, next)\<close> ends: with a value,
  with an exception (a throw or a rejected promise), or never.
\<close>

datatype outcome = Returns jsval | Throws jsval | Pending

text \<open>How the promise of the wrapped handler ends.\<close>

datatype completion = Resolved | Unsettled

type_synonym handler = "request \<Rightarrow> exchange \<Rightarrow> completion \<times> exchange"

text \<open>
  A controller method receives \<open>req\<close>, \<open>res\<close> and \<open>next\<close>, so it may itself set the
  status, send a body or call \<open>next\<close> before it returns or throws.
\<close>

type_synonym controller_method = "request \<Rightarrow> exchange \<Rightarrow> outcome \<times> exchange"

subsection \<open>Controllers\<close>

text \<open>
  An own enumerable property of a controller object is a function or something else
  (\<open>typeof controller[key] === variableType.FUNCTION\<close>; the constants of
  \<open>./globalConsts\<close> are taken to be the \<open>typeof\<close> names \<open>'function'\<close> and \<open>'string'\<close>).
\<close>

datatype cprop = Method controller_method | Data

text \<open>An entry of \<open>controller.middlewares[methodName]\<close>: a function, a name, or neither.\<close>

datatype mwitem = ItemFunction nat | ItemString string | ItemOther

text \<open>
  \<open>ownProps\<close> is the object as \<open>Object.keys\<close> lists it. The three configuration
  objects are read per method name; \<open>None\<close> stands for every value that fails the
  test \<open>x && x[methodName] && Array.isArray(x[methodName])\<close>.
\<close>

record controller =
  ownProps :: "(string \<times> cprop) list"
  params :: "string \<Rightarrow> string list option"
  middlewares :: "string \<Rightarrow> mwitem list option"
  validation :: "string \<Rightarrow> nat list option"

subsection \<open>The request/response adapter\<close>

text \<open>
  \<open>resultSend\<close>; \<open>Inl\<close> is the value thrown. The test of line 35 is
  \<open>result && result.hasOwnProperty('password')\<close>, so a falsy result is not asked; a
  throw of the call comes before the deletion and before \<open>res.json\<close>.
\<close>

definition resultSend :: "exchange \<Rightarrow> jsval \<Rightarrow> jsval + exchange" where
  "resultSend res result =
     (case (if truthy result then hasOwnProperty_password result else Inr False) of
        Inl e \<Rightarrow> Inl e
      | Inr owns \<Rightarrow>
          (let result' = (if owns then delete_password result else result)
           in Inr (if statusCode res = 200 then res\<lparr>jsonCalls := jsonCalls res @ [result']\<rparr>
                   else res)))"

definition errorChecker :: "request \<Rightarrow> exchange \<Rightarrow> error + exchange" where
  "errorChecker req res =
     (case validationErrors req of
        [] \<Rightarrow> Inr (res\<lparr>nextCalls := nextCalls res @ [None]\<rparr>)
      | err # _ \<Rightarrow> Inl (ValidationError (param err @ '' '' @ msg err)))"

text \<open>
  The call \<open>controller[methodName](req, res, next)\<close>. Calling a property that is not a
  function throws a TypeError, inside the \<open>try\<close> of the wrapper.
\<close>

definition invoke :: "controller \<Rightarrow> string \<Rightarrow> controller_method" where
  "invoke controller methodName req res =
     (case map_of (ownProps controller) methodName of
        Some (Method f) \<Rightarrow> f req res
      | _ \<Rightarrow> (Throws (JStr ''TypeError: controller[methodName] is not a function''), res))"

text \<open>
  \<open>getControllerMethod\<close>. Both calls of \<open>resultSend\<close> are inside the \<open>try\<close>, so what
  they throw is passed to \<open>next\<close> like what the method throws.
\<close>

definition getControllerMethod :: "controller \<Rightarrow> string \<Rightarrow> handler" where
  "getControllerMethod controller methodName req res =
     (case invoke controller methodName req res of
        (Returns result, res') \<Rightarrow>
          (case (if \<not> truthy result \<and> result \<noteq> JNum 0
                 then resultSend res' (JStr ''ok'')
                 else resultSend res' result) of
             Inl e \<Rightarrow> (Resolved, res'\<lparr>nextCalls := nextCalls res' @ [Some e]\<rparr>)
           | Inr res'' \<Rightarrow> (Resolved, res''))
      | (Throws e, res') \<Rightarrow> (Resolved, res'\<lparr>nextCalls := nextCalls res' @ [Some e]\<rparr>)
      | (Pending, res') \<Rightarrow> (Unsettled, res'))"

subsection \<open>Strings\<close>

text \<open>\<open>s.split(c)\<close> for a separator of one character; the result is never empty.\<close>

fun js_split :: "char \<Rightarrow> string \<Rightarrow> string list" where
  "js_split c [] = [[]]"
| "js_split c (x # xs) =
     (if x = c then [] # js_split c xs
      else (case js_split c xs of w # ws \<Rightarrow> (x # w) # ws | [] \<Rightarrow> [[x]]))"

text \<open>
  \<open>s.replace(pat, rep)\<close> for a string pattern: the first occurrence only. The code
  passes the replacement \<open>''\<close>, so the \<open>$\<close> patterns of a replacement do not arise.
\<close>

fun js_replace :: "string \<Rightarrow> string \<Rightarrow> string \<Rightarrow> string" where
  "js_replace pat rep [] = (if pat = [] then rep else [])"
| "js_replace pat rep (x # xs) =
     (if prefix pat (x # xs) then rep @ drop (length pat) (x # xs)
      else x # js_replace pat rep xs)"

text \<open>\<open>xs.join(sep)\<close> on an array of strings.\<close>

fun js_join :: "string \<Rightarrow> string list \<Rightarrow> string" where
  "js_join sep [] = []"
| "js_join sep [x] = x"
| "js_join sep (x # y # ys) = x @ sep @ js_join sep (y # ys)"

text \<open>\<open>s.toUpperCase()\<close> on ASCII.\<close>

definition toUpperCase :: "string \<Rightarrow> string" where
  "toUpperCase s =
     map (\<lambda>c. case map_of (zip ''abcdefghijklmnopqrstuvwxyz''
                                ''ABCDEFGHIJKLMNOPQRSTUVWXYZ'') c of
                Some u \<Rightarrow> u
              | None \<Rightarrow> c) s"

subsection \<open>Lookup tables\<close>

text \<open>
  \<open>predefinedRoutes\<close> and \<open>middlewaresMapped\<close> are plain objects used as tables, read
  with \<open>table[name]\<close>. Such a read finds the own properties of the object and, for the
  other names, the members every object inherits from \<open>Object.prototype\<close>: functions,
  and the prototype object itself under \<open>__proto__\<close>.
\<close>

datatype 'a property = Own 'a | InheritedFunction | InheritedObject | Undefined

definition objectPrototypeFunctions :: "string list" where
  "objectPrototypeFunctions =
     [''constructor'', ''hasOwnProperty'', ''isPrototypeOf'', ''propertyIsEnumerable'',
      ''toLocaleString'', ''toString'', ''valueOf'', ''__defineGetter__'',
      ''__defineSetter__'', ''__lookupGetter__'', ''__lookupSetter__'']"

definition plainObjectGet :: "(string \<times> 'a) list \<Rightarrow> string \<Rightarrow> 'a property" where
  "plainObjectGet own name =
     (case map_of own name of
        Some v \<Rightarrow> Own v
      | None \<Rightarrow>
          if name \<in> set objectPrototypeFunctions then InheritedFunction
          else if name = ''__proto__'' then InheritedObject
          else Undefined)"

definition predefinedRoutes :: "(string \<times> string) list" where
  "predefinedRoutes =
     [(''list'', ''get''), (''create'', ''post''), (''update'', ''patch''),
      (''destroy'', ''delete''), (''show'', ''get'')]"

definition acceptedMethods :: "string list" where
  "acceptedMethods = [''get'', ''post'', ''patch'', ''put'', ''delete'']"

definition routeWithParams :: "string list" where
  "routeWithParams = [''update'', ''destroy'', ''show'']"

definition ignoredKeys :: "string list" where
  "ignoredKeys = [''routeMiddlewares'', ''routeValidation'', ''routeParams'']"

subsection \<open>The router, the folder tree and the libraries\<close>

text \<open>
  What is handed to the router after the path: the functions of the controller's
  \<open>middlewares\<close> entry (a function of the middleware service is \<open>Fn\<close>, an inherited
  member of \<open>Object.prototype\<close> is \<open>ProtoFn\<close>), the array of validators as one
  argument, and \<open>RouteUtil.errorChecker\<close>.
\<close>

datatype middleware = Fn nat | ProtoFn string | Validators "nat list" | ErrorChecker

record route =
  verb :: string
  path :: string
  chain :: "middleware list"
  handler :: handler

text \<open>
  The state of the start-up scan: the routes registered on the router in order, the
  lines of \<open>console.log\<close>, the lines of \<open>Logger.warning\<close>, and the own properties of the
  static table \<open>RouteUtil.middlewaresMapped\<close>.
\<close>

record world =
  routes :: "route list"
  console :: "string list"
  warnings :: "string list"
  middlewaresMapped :: "(string \<times> nat) list"

text \<open>
  A folder entry is a plain file or a folder. A plain file carries what \<open>require\<close>
  yields for it: \<open>None\<close> when loading it throws, else the exports of the module, each
  export name with the object that \<open>new\<close> constructs from it.
\<close>

datatype fsnode =
    File "(string \<times> controller) list option"
  | Dir "(string \<times> fsnode) list"

text \<open>
  The libraries and the configuration: the three functions of change-case that are
  called, the own property names of the class \<open>MiddlewareService\<close> (with the function
  behind each name, if it is one other than the class itself), and the two values
  imported from \<open>config\<close>: the folder of the controllers, as the tree found there, and
  the API path.
\<close>

record env =
  snakeCase :: "string \<Rightarrow> string"
  camelCase :: "string \<Rightarrow> string"
  upperCaseFirst :: "string \<Rightarrow> string"
  MiddlewareService :: "(string \<times> nat option) list"
  defaultControllerFolder :: "(string \<times> fsnode) list"
  defaultApiPath :: string

subsection \<open>Middlewares\<close>

definition addValidation ::
  "middleware list \<Rightarrow> string \<Rightarrow> controller \<Rightarrow> middleware list" where
  "addValidation mws methodName controller =
     (case validation controller methodName of
        Some vs \<Rightarrow> if vs \<noteq> [] then mws @ [Validators vs, ErrorChecker] else mws
      | None \<Rightarrow> mws)"

text \<open>\<open>getMiddlewaresMapped\<close>: the loop over \<open>Object.getOwnPropertyNames(MiddlewareService)\<close>.\<close>

fun getMiddlewaresMapped_loop ::
  "(string \<times> nat option) list \<Rightarrow> (string \<times> nat) list \<Rightarrow> (string \<times> nat) list" where
  "getMiddlewaresMapped_loop [] mapped = mapped"
| "getMiddlewaresMapped_loop ((name, None) # rest) mapped =
     getMiddlewaresMapped_loop rest mapped"
| "getMiddlewaresMapped_loop ((name, Some method) # rest) mapped =
     getMiddlewaresMapped_loop rest (AList.update name method mapped)"

definition getMiddlewaresMapped :: "env \<Rightarrow> world \<Rightarrow> world" where
  "getMiddlewaresMapped e w =
     w\<lparr>middlewaresMapped :=
         getMiddlewaresMapped_loop (MiddlewareService e) (middlewaresMapped w)\<rparr>"

text \<open>
  The loop of \<open>getRouteMiddlewares\<close> over the items; it yields the middlewares pushed
  and the warnings logged. \<open>RouteUtil.constructor.name\<close> is \<open>Function\<close>.
\<close>

fun getRouteMiddlewares_loop ::
  "(string \<times> nat) list \<Rightarrow> mwitem list \<Rightarrow> middleware list \<times> string list" where
  "getRouteMiddlewares_loop mapped [] = ([], [])"
| "getRouteMiddlewares_loop mapped (ItemFunction f # items) =
     (let (mws, ws) = getRouteMiddlewares_loop mapped items in (Fn f # mws, ws))"
| "getRouteMiddlewares_loop mapped (ItemString name # items) =
     (let (mws, ws) = getRouteMiddlewares_loop mapped items
      in case plainObjectGet mapped name of
           Own f \<Rightarrow> (Fn f # mws, ws)
         | InheritedFunction \<Rightarrow> (ProtoFn name # mws, ws)
         | _ \<Rightarrow> (mws, (''Function: middleware '' @ [CHR 0x27] @ name @ [CHR 0x27]
                          @ '' not found in MiddlewareService'') # ws))"
| "getRouteMiddlewares_loop mapped (ItemOther # items) =
     getRouteMiddlewares_loop mapped items"

definition getRouteMiddlewares ::
  "(string \<times> nat) list \<Rightarrow> string \<Rightarrow> controller \<Rightarrow> middleware list \<times> string list" where
  "getRouteMiddlewares mapped methodName controller =
     (let (mws, ws) =
            (case middlewares controller methodName of
               Some items \<Rightarrow> getRouteMiddlewares_loop mapped items
             | None \<Rightarrow> ([], []))
      in (addValidation mws methodName controller, ws))"

subsection \<open>Paths and verbs\<close>

definition getDefaultRoutePath :: "string \<Rightarrow> string \<Rightarrow> string \<Rightarrow> string" where
  "getDefaultRoutePath controllerPath methodName paramName =
     (if methodName \<notin> set routeWithParams then controllerPath
      else controllerPath @ ''/:'' @ paramName)"

definition getCustomRoutePath ::
  "env \<Rightarrow> controller \<Rightarrow> string \<Rightarrow> string \<Rightarrow> string \<Rightarrow> string" where
  "getCustomRoutePath e controller controllerPath methodName requestType =
     (let controllerPath' =
            controllerPath @ ''/''
              @ js_replace (requestType @ ''_'') [] (snakeCase e methodName)
      in case params controller methodName of
           Some ps \<Rightarrow>
             if ps \<noteq> [] then controllerPath' @ ''/:'' @ js_join ''/:'' ps
             else controllerPath'
         | None \<Rightarrow> controllerPath')"

definition getCustomRouteRequestType :: "env \<Rightarrow> string \<Rightarrow> string" where
  "getCustomRouteRequestType e methodName =
     hd (js_split (CHR ''_'') (snakeCase e methodName))"

definition checkIsRouteMethod :: "env \<Rightarrow> string \<Rightarrow> bool" where
  "checkIsRouteMethod e methodName =
     (getCustomRouteRequestType e methodName \<in> set acceptedMethods)"

subsection \<open>Registering routes\<close>

text \<open>
  \<open>router[requestType](path, ...middlewares, handler)\<close> followed by the \<open>console.log\<close>
  of the route, for a \<open>requestType\<close> that names a method of the router, as the five
  accepted verbs do. The warnings are those logged while the arguments of the call
  were evaluated.
\<close>

definition register ::
  "world \<Rightarrow> string \<Rightarrow> string \<Rightarrow> middleware list \<times> string list \<Rightarrow> handler \<Rightarrow> world" where
  "register router requestType p mws h =
     router\<lparr>routes := routes router
                @ [\<lparr>verb = requestType, path = p, chain = fst mws, handler = h\<rparr>],
            console := console router @ [toUpperCase requestType @ '' '' @ p],
            warnings := warnings router @ snd mws\<rparr>"

text \<open>
  \<open>buildDefaultRoute\<close>. When \<open>predefinedRoutes[methodName]\<close> is not an own entry of the
  table, \<open>router[requestType]\<close> is \<open>undefined\<close> and the call throws.
\<close>

definition buildDefaultRoute ::
  "world \<Rightarrow> controller \<Rightarrow> string \<Rightarrow> string \<Rightarrow> string \<Rightarrow> error + world" where
  "buildDefaultRoute router controller apiPath methodName paramName =
     (case plainObjectGet predefinedRoutes methodName of
        Own requestType \<Rightarrow>
          Inr (register router requestType
                 (getDefaultRoutePath apiPath methodName paramName)
                 (getRouteMiddlewares (middlewaresMapped router) methodName controller)
                 (getControllerMethod controller methodName))
      | _ \<Rightarrow> Inl (TypeError ''router[requestType] is not a function''))"

text \<open>
  \<open>buildCustomRoute\<close>; its only caller has checked \<open>checkIsRouteMethod\<close>, so
  \<open>requestType\<close> is one of the accepted verbs.
\<close>

definition buildCustomRoute :: "env \<Rightarrow> world \<Rightarrow> controller \<Rightarrow> string \<Rightarrow> string \<Rightarrow> world" where
  "buildCustomRoute e router controller controllerPath methodName =
     (let requestType = getCustomRouteRequestType e methodName
      in register router requestType
           (getCustomRoutePath e controller controllerPath methodName requestType)
           (getRouteMiddlewares (middlewaresMapped router) methodName controller)
           (getControllerMethod controller methodName))"

subsection \<open>Scanning the folders\<close>

text \<open>\<open>typeof controller[methodName] === variableType.FUNCTION\<close>.\<close>

fun isFunction :: "cprop \<Rightarrow> bool" where
  "isFunction (Method f) = True"
| "isFunction Data = False"

definition methodNames :: "controller \<Rightarrow> string list" where
  "methodNames controller =
     map fst (filter (\<lambda>(methodName, v). methodName \<notin> set ignoredKeys \<and> isFunction v)
                     (ownProps controller))"

text \<open>The two loops of \<open>buildController\<close> over \<open>methodNames\<close>.\<close>

fun buildCustomRoutes :: "env \<Rightarrow> world \<Rightarrow> controller \<Rightarrow> string \<Rightarrow> string list \<Rightarrow> world" where
  "buildCustomRoutes e router controller apiPath [] = router"
| "buildCustomRoutes e router controller apiPath (methodName # rest) =
     buildCustomRoutes e
       (if checkIsRouteMethod e methodName
        then buildCustomRoute e router controller apiPath methodName else router)
       controller apiPath rest"

text \<open>
  The test \<open>if (RouteUtil.predefinedRoutes[methodName])\<close> holds for an own entry and
  for an inherited member alike.
\<close>

fun buildDefaultRoutes ::
  "world \<Rightarrow> controller \<Rightarrow> string \<Rightarrow> string \<Rightarrow> string list \<Rightarrow> error + world" where
  "buildDefaultRoutes router controller apiPath paramName [] = Inr router"
| "buildDefaultRoutes router controller apiPath paramName (methodName # rest) =
     (if plainObjectGet predefinedRoutes methodName \<noteq> Undefined
      then (case buildDefaultRoute router controller apiPath methodName paramName of
              Inl err \<Rightarrow> Inl err
            | Inr router' \<Rightarrow> buildDefaultRoutes router' controller apiPath paramName rest)
      else buildDefaultRoutes router controller apiPath paramName rest)"

text \<open>
  \<open>require(`${controllerPath}/${className}.ts`)\<close>: it yields the module when the folder
  holds a plain file of that name that loads, and throws otherwise.
\<close>

definition require ::
  "(string \<times> fsnode) list \<Rightarrow> string \<Rightarrow> (string \<times> controller) list option" where
  "require entries className =
     (case map_of entries (className @ ''.ts'') of
        Some (File (Some controllerData)) \<Rightarrow> Some controllerData
      | _ \<Rightarrow> None)"

text \<open>\<open>lstatSync(source).isFile()\<close>.\<close>

fun isFile :: "fsnode \<Rightarrow> bool" where
  "isFile (File m) = True"
| "isFile (Dir entries) = False"

text \<open>
  \<open>buildController\<close> and \<open>buildSubFolderRoutes\<close>. The folder at \<open>controllerPath\<close> is
  given by its entries, in the order of \<open>readdirSync\<close>; the test \<open>isFile\<close> is the
  pattern of the entry, so that the recursion into a folder is structural. A module
  that loads but does not export \<open>className\<close> makes \<open>new controllerData[className]()\<close>
  throw, outside the \<open>try\<close>.
\<close>

fun buildController ::
      "env \<Rightarrow> string \<Rightarrow> (string \<times> fsnode) list \<Rightarrow> world \<Rightarrow> string \<Rightarrow> error + world"
  and buildSubFolderRoutes ::
      "env \<Rightarrow> (string \<times> fsnode) list \<Rightarrow> world \<Rightarrow> string \<Rightarrow> error + world" where
  "buildController e folderName entries router apiPath =
     (case require entries (upperCaseFirst e (camelCase e folderName) @ ''Controller'') of
        None \<Rightarrow> buildSubFolderRoutes e entries router (apiPath @ ''/'' @ folderName)
      | Some controllerData \<Rightarrow>
          (case map_of controllerData
                  (upperCaseFirst e (camelCase e folderName) @ ''Controller'') of
             None \<Rightarrow> Inl (TypeError ''controllerData[className] is not a constructor'')
           | Some controller \<Rightarrow>
               buildDefaultRoutes
                 (buildCustomRoutes e router controller (apiPath @ ''/'' @ folderName)
                    (methodNames controller))
                 controller (apiPath @ ''/'' @ folderName)
                 (camelCase e folderName @ ''Id'') (methodNames controller)))"
| "buildSubFolderRoutes e [] router apiPath = Inr router"
| "buildSubFolderRoutes e ((folderName, File m) # rest) router apiPath =
     buildSubFolderRoutes e rest router apiPath"
| "buildSubFolderRoutes e ((folderName, Dir entries) # rest) router apiPath =
     (case buildController e folderName entries router apiPath of
        Inl err \<Rightarrow> Inl err
      | Inr router' \<Rightarrow> buildSubFolderRoutes e rest router' apiPath)"

declare buildController.simps [simp del]

definition build :: "env \<Rightarrow> world \<Rightarrow> error + world" where
  "build e router =
     buildSubFolderRoutes e (defaultControllerFolder e)
       (getMiddlewaresMapped e (router\<lparr>console := console router @ [''Building routes'']\<rparr>))
       (defaultApiPath e)"

section \<open>The conventions in the words of the specification\<close>

text \<open>The fixed mapping from the predefined method names to verbs.\<close>

definition spec_verb :: "string \<Rightarrow> string" where
  "spec_verb m =
     (if m = ''list'' then ''get''
      else if m = ''create'' then ''post''
      else if m = ''update'' then ''patch''
      else if m = ''destroy'' then ''delete''
      else if m = ''show'' then ''get''
      else [])"

text \<open>The snake_case name with the leading verb prefix (verb plus underscore) removed.\<close>

definition removeVerbPrefix :: "string \<Rightarrow> string \<Rightarrow> string" where
  "removeVerbPrefix requestType snake =
     (if prefix (requestType @ ''_'') snake
      then drop (length (requestType @ ''_'')) snake else snake)"

text \<open>The parameters a controller declares for a method, none when it declares no array.\<close>

definition declaredParams :: "controller \<Rightarrow> string \<Rightarrow> string list" where
  "declaredParams controller methodName =
     (case params controller methodName of Some ps \<Rightarrow> ps | None \<Rightarrow> [])"

text \<open>A JSON value contains a field \<open>k\<close>: some object in it, at any depth, has the key.\<close>

fun containsField :: "string \<Rightarrow> jsval \<Rightarrow> bool"
  and containsField_items :: "string \<Rightarrow> jsval list \<Rightarrow> bool"
  and containsField_props :: "string \<Rightarrow> (string \<times> jsval) list \<Rightarrow> bool" where
  "containsField k (JObj kvs) = containsField_props k kvs"
| "containsField k (JArr xs) = containsField_items k xs"
| "containsField k v = False"
| "containsField_items k [] = False"
| "containsField_items k (x # xs) = (containsField k x \<or> containsField_items k xs)"
| "containsField_props k [] = False"
| "containsField_props k ((k', v) # kvs) =
     (k' = k \<or> containsField k v \<or> containsField_props k kvs)"

text \<open>The verbs and paths on the router after a scan; \<open>None\<close> when the scan threw.\<close>

definition routeTable :: "error + world \<Rightarrow> (string \<times> string) list option" where
  "routeTable r =
     (case r of
        Inl err \<Rightarrow> None
      | Inr w \<Rightarrow> Some (map (\<lambda>x. (verb x, path x)) (routes w)))"

section \<open>Examples\<close>

definition req0 :: request where
  "req0 = \<lparr>validationErrors = []\<rparr>"

definition req1 :: request where
  "req1 = \<lparr>validationErrors = [\<lparr>param = ''email'', msg = ''is required''\<rparr>,
                                \<lparr>param = ''age'', msg = ''must be a number''\<rparr>]\<rparr>"

definition res0 :: exchange where
  "res0 = \<lparr>statusCode = 200, jsonCalls = [], nextCalls = []\<rparr>"

definition usersController :: controller where
  "usersController =
     \<lparr>ownProps =
        [(''params'', Data),
         (''list'', Method (\<lambda>req res.
            (Returns (JArr [JObj [(''email'', JStr ''ann@example.org''),
                                  (''password'', JStr ''secret'')]]), res))),
         (''show'', Method (\<lambda>req res.
            (Returns (JObj [(''email'', JStr ''ann@example.org''),
                            (''password'', JStr ''secret'')]), res))),
         (''create'', Method (\<lambda>req res.
            (Returns (JObj [(''id'', JNum 7)]), res\<lparr>statusCode := 201\<rparr>))),
         (''update'', Method (\<lambda>req res. (Returns JUndefined, res))),
         (''destroy'', Method (\<lambda>req res. (Throws (JStr ''not found''), res))),
         (''getCount'', Method (\<lambda>req res. (Returns (JNum 0), res))),
         (''getPostsByTag'', Method (\<lambda>req res. (Returns (JArr []), res))),
         (''helper'', Method (\<lambda>req res. (Returns JNull, res)))],
      params = (\<lambda>m. if m = ''getPostsByTag'' then Some [''tag'', ''page''] else None),
      middlewares = (\<lambda>m. if m = ''create'' then Some [ItemString ''auth'', ItemFunction 3]
                          else None),
      validation = (\<lambda>m. if m = ''create'' then Some [1, 2] else None)\<rparr>"

definition toolsController :: controller where
  "toolsController =
     \<lparr>ownProps = [(''helper'', Method (\<lambda>req res. (Returns JNull, res))),
                  (''fetchAll'', Method (\<lambda>req res. (Returns (JArr []), res)))],
      params = (\<lambda>m. None), middlewares = (\<lambda>m. None), validation = (\<lambda>m. None)\<rparr>"


definition usersFolder :: "(string \<times> fsnode) list" where
  "usersFolder =
     [(''UsersController.ts'', File (Some [(''UsersController'', usersController)]))]"

definition toolsFolder :: "(string \<times> fsnode) list" where
  "toolsFolder =
     [(''ToolsController.ts'', File (Some [(''ToolsController'', toolsController)]))]"

definition adminFolder :: "(string \<times> fsnode) list" where
  "adminFolder = [(''notes.txt'', File None), (''users'', Dir usersFolder)]"

text \<open>
  The change-case functions at the names of the examples: a lower-case word is its own
  snake_case and camelCase.
\<close>

definition sampleEnv :: env where
  "sampleEnv =
     \<lparr>snakeCase = (\<lambda>s. case map_of [(''getCount'', ''get_count''),
                                     (''getPostsByTag'', ''get_posts_by_tag''),
                                     (''fetchAll'', ''fetch_all'')] s of
                         Some t \<Rightarrow> t
                       | None \<Rightarrow> s),
      camelCase = (\<lambda>s. s),
      upperCaseFirst = (\<lambda>s. case s of [] \<Rightarrow> [] | c # cs \<Rightarrow> toUpperCase [c] @ cs),
      MiddlewareService = [(''length'', None), (''name'', None), (''prototype'', None),
                           (''auth'', Some 1)],
      defaultControllerFolder =
        [(''README.md'', File None), (''admin'', Dir adminFolder), (''tools'', Dir toolsFolder)],
      defaultApiPath = ''/api''\<rparr>"

definition world0 :: world where
  "world0 = \<lparr>routes = [], console = [], warnings = [], middlewaresMapped = []\<rparr>"

section \<open>Properties\<close>

subsection \<open>The adapter\<close>

lemma delete_password_id: "\<not> ownsPassword result \<Longrightarrow> delete_password result = result"
  by (cases result) simp_all


text \<open>A result that does not shadow \<open>hasOwnProperty\<close> is sent without its own password.\<close>

lemma resultSend_plain:
  assumes "\<not> ownsHasOwnProperty result"
  shows "resultSend res result
           = Inr (if statusCode res = 200
                  then res\<lparr>jsonCalls := jsonCalls res @ [delete_password result]\<rparr>
                  else res)"
proof (cases "truthy result")
  case False
  then have "\<not> ownsPassword result" by (cases result) simp_all
  with False show ?thesis by (simp add: resultSend_def delete_password_id)
next
  case True
  with assms have "hasOwnProperty_password result = Inr (ownsPassword result)"
    by (cases result) simp_all
  with True show ?thesis by (simp add: resultSend_def delete_password_id)
qed


lemma resultSend_ok:
  "resultSend res (JStr ''ok'')
     = Inr (if statusCode res = 200 then res\<lparr>jsonCalls := jsonCalls res @ [JStr ''ok'']\<rparr>
            else res)"
  using resultSend_plain [of "JStr ''ok''" res] by simp




text \<open>
  C6, as amended. When the controller method returns a falsy result other than the
  number \<open>0\<close>, the wrapped handler passes the string \<open>ok\<close> to \<open>resultSend\<close>: the body
  \<open>ok\<close> is sent when the status code is 200, and nothing is sent otherwise.
\<close>

theorem getControllerMethod_default_ok:
  assumes "invoke controller methodName req res = (Returns result, res')"
      and "\<not> truthy result" and "result \<noteq> JNum 0"
  shows "fst (getControllerMethod controller methodName req res) = Resolved
         \<and> resultSend res' (JStr ''ok'')
             = Inr (snd (getControllerMethod controller methodName req res))
         \<and> jsonCalls (snd (getControllerMethod controller methodName req res))
           = jsonCalls res' @ (if statusCode res' = 200 then [JStr ''ok''] else [])"
  using assms by (simp add: getControllerMethod_def resultSend_ok)

theorem getControllerMethod_default_ok_witness:
  "invoke usersController ''update'' req0 res0 = (Returns JUndefined, res0)
   \<and> \<not> truthy JUndefined \<and> JUndefined \<noteq> JNum 0
   \<and> jsonCalls (snd (getControllerMethod usersController ''update'' req0 res0)) = [JStr ''ok'']"
proof -
  have h: "invoke usersController ''update'' req0 res0 = (Returns JUndefined, res0)"
    by (simp add: invoke_def usersController_def)
  from getControllerMethod_default_ok [OF h] h show ?thesis
    by (simp add: res0_def)
qed

text \<open>
  C6 as stated fails at the falsy result \<open>0\<close>, which the guard \<open>result !== 0\<close> exempts:
  the body sent is \<open>0\<close>, not \<open>ok\<close>.
\<close>

theorem getControllerMethod_zero_counterexample:
  "invoke usersController ''getCount'' req0 res0 = (Returns (JNum 0), res0)
   \<and> \<not> truthy (JNum 0)
   \<and> getControllerMethod usersController ''getCount'' req0 res0
       = (Resolved, \<lparr>statusCode = 200, jsonCalls = [JNum 0], nextCalls = []\<rparr>)"
  by (simp add: getControllerMethod_def invoke_def usersController_def res0_def resultSend_def)

text \<open>
  C7. When the controller method throws, or its promise rejects, the wrapped handler
  passes the error to \<open>next\<close> and does nothing else: its own promise resolves, and it
  neither calls \<open>res.json\<close> nor changes the status.
\<close>

theorem getControllerMethod_catches:
  assumes "invoke controller methodName req res = (Throws e, res')"
  shows "getControllerMethod controller methodName req res
           = (Resolved, res'\<lparr>nextCalls := nextCalls res' @ [Some e]\<rparr>)
         \<and> jsonCalls (snd (getControllerMethod controller methodName req res)) = jsonCalls res'
         \<and> statusCode (snd (getControllerMethod controller methodName req res)) = statusCode res'"
  using assms by (simp add: getControllerMethod_def)

theorem getControllerMethod_catches_witness:
  "invoke usersController ''destroy'' req0 res0 = (Throws (JStr ''not found''), res0)
   \<and> getControllerMethod usersController ''destroy'' req0 res0
       = (Resolved, \<lparr>statusCode = 200, jsonCalls = [], nextCalls = [Some (JStr ''not found'')]\<rparr>)"
proof -
  have h: "invoke usersController ''destroy'' req0 res0 = (Throws (JStr ''not found''), res0)"
    by (simp add: invoke_def usersController_def)
  from getControllerMethod_catches [OF h] h show ?thesis
    by (simp add: res0_def)
qed




text \<open>
  C9. The validation error checker throws a ValidationError, whose message is the
  param and the msg of the first validation error joined by a space, exactly when
  the validation result of the request holds at least one error; with no error it
  calls \<open>next()\<close> once and throws nothing.
\<close>

theorem errorChecker_throws_iff:
  "((\<exists>e. errorChecker req res = Inl e) \<longleftrightarrow> validationErrors req \<noteq> [])
   \<and> (validationErrors req \<noteq> [] \<longrightarrow>
        errorChecker req res =
          Inl (ValidationError (param (hd (validationErrors req)) @ '' ''
                                 @ msg (hd (validationErrors req)))))
   \<and> (validationErrors req = [] \<longrightarrow>
        errorChecker req res = Inr (res\<lparr>nextCalls := nextCalls res @ [None]\<rparr>))"
  by (cases "validationErrors req") (simp_all add: errorChecker_def)

theorem errorChecker_throws_iff_witness:
  "validationErrors req1 \<noteq> []
   \<and> errorChecker req1 res0 = Inl (ValidationError ''email is required'')
   \<and> validationErrors req0 = []
   \<and> errorChecker req0 res0 = Inr \<lparr>statusCode = 200, jsonCalls = [], nextCalls = [None]\<rparr>"
  using errorChecker_throws_iff [of req1 res0] errorChecker_throws_iff [of req0 res0]
  by (simp add: req0_def req1_def res0_def)

subsection \<open>Strings\<close>

lemma js_split_not_Nil: "js_split c s \<noteq> []"
  by (induction s) (auto split: list.splits)

lemma hd_js_split_present:
  "c \<in> set s \<Longrightarrow> \<exists>rest. s = hd (js_split c s) @ c # rest"
proof (induction s)
  case Nil
  then show ?case by simp
next
  case (Cons x xs)
  show ?case
  proof (cases "x = c")
    case True
    then show ?thesis by simp
  next
    case False
    with Cons.prems have "c \<in> set xs" by simp
    then obtain rest where "xs = hd (js_split c xs) @ c # rest"
      using Cons.IH by blast
    moreover obtain w ws where "js_split c xs = w # ws"
      using js_split_not_Nil [of c xs] by (cases "js_split c xs") auto
    ultimately show ?thesis using False by auto
  qed
qed

lemma js_replace_prefix:
  "pat \<noteq> [] \<Longrightarrow> prefix pat s \<Longrightarrow> js_replace pat rep s = rep @ drop (length pat) s"
  by (cases s) auto

lemma js_replace_absent:
  "c \<in> set pat \<Longrightarrow> c \<notin> set s \<Longrightarrow> js_replace pat rep s = s"
proof (induction s)
  case Nil
  then show ?case by auto
next
  case (Cons x xs)
  have "\<not> prefix pat (x # xs)"
  proof
    assume "prefix pat (x # xs)"
    then have "set pat \<subseteq> set (x # xs)" by (rule set_mono_prefix)
    with Cons.prems show False by auto
  qed
  with Cons show ?case by simp
qed

lemma js_join_segments:
  "ps \<noteq> [] \<Longrightarrow> sep @ js_join sep ps = concat (map (\<lambda>p. sep @ p) ps)"
  by (induction sep ps rule: js_join.induct) simp_all

text \<open>
  Replacing the first occurrence of the verb and an underscore removes the leading
  prefix when there is one, and nothing otherwise: the verb is the part of the name
  before its first underscore.
\<close>

lemma js_replace_verb:
  "js_replace (hd (js_split (CHR ''_'') s) @ ''_'') [] s
     = removeVerbPrefix (hd (js_split (CHR ''_'') s)) s"
proof (cases "CHR ''_'' \<in> set s")
  case True
  then obtain rest where "s = hd (js_split (CHR ''_'') s) @ CHR ''_'' # rest"
    using hd_js_split_present by blast
  then have p: "prefix (hd (js_split (CHR ''_'') s) @ ''_'') s"
    by (metis append.assoc append_Cons append_Nil prefixI)
  then show ?thesis
    by (simp add: removeVerbPrefix_def js_replace_prefix)
next
  case False
  then have "\<not> prefix (hd (js_split (CHR ''_'') s) @ ''_'') s"
    using set_mono_prefix by fastforce
  with False show ?thesis
    by (simp add: removeVerbPrefix_def js_replace_absent [of "CHR ''_''"])
qed

subsection \<open>Registering routes\<close>

lemma register_routes:
  "routes (register router v p mws h)
     = routes router @ [\<lparr>verb = v, path = p, chain = fst mws, handler = h\<rparr>]"
  by (simp add: register_def)

lemma register_middlewaresMapped:
  "middlewaresMapped (register router v p mws h) = middlewaresMapped router"
  by (simp add: register_def)

lemma getCustomRoutePath_spec:
  "getCustomRoutePath e c controllerPath m (getCustomRouteRequestType e m)
     = controllerPath @ ''/''
         @ removeVerbPrefix (getCustomRouteRequestType e m) (snakeCase e m)
         @ concat (map (\<lambda>p. ''/:'' @ p) (declaredParams c m))"
proof (cases "params c m")
  case None
  then show ?thesis
    by (simp add: getCustomRoutePath_def getCustomRouteRequestType_def js_replace_verb
        declaredParams_def)
next
  case (Some ps)
  show ?thesis
  proof (cases "ps = []")
    case True
    with Some show ?thesis
      by (simp add: getCustomRoutePath_def getCustomRouteRequestType_def js_replace_verb
          declaredParams_def)
  next
    case False
    from js_join_segments [OF False, of "''/:''"]
    have "''/:'' @ js_join ''/:'' ps = concat (map (\<lambda>p. ''/:'' @ p) ps)" .
    with Some False show ?thesis
      by (simp add: getCustomRoutePath_def getCustomRouteRequestType_def js_replace_verb
          declaredParams_def)
  qed
qed

lemma buildCustomRoutes_middlewaresMapped:
  "middlewaresMapped (buildCustomRoutes e router c apiPath ms) = middlewaresMapped router"
  by (induction ms arbitrary: router)
     (simp_all add: buildCustomRoute_def Let_def register_middlewaresMapped)

lemma buildCustomRoutes_routes:
  "routes (buildCustomRoutes e router c apiPath ms)
     = routes router
       @ map (\<lambda>m. \<lparr>verb = getCustomRouteRequestType e m,
                   path = getCustomRoutePath e c apiPath m (getCustomRouteRequestType e m),
                   chain = fst (getRouteMiddlewares (middlewaresMapped router) m c),
                   handler = getControllerMethod c m\<rparr>)
             (filter (checkIsRouteMethod e) ms)"
  by (induction ms arbitrary: router)
     (simp_all add: buildCustomRoute_def Let_def register_routes register_middlewaresMapped)

lemma plainObjectGet_Own: "plainObjectGet own name = Own v \<longleftrightarrow> map_of own name = Some v"
  by (simp add: plainObjectGet_def split: option.splits)

lemma plainObjectGet_Undefined: "plainObjectGet own name = Undefined \<Longrightarrow> map_of own name = None"
  by (simp add: plainObjectGet_def split: option.splits if_splits)

lemma map_of_predefinedRoutes:
  "map_of predefinedRoutes m
     = (if m \<in> {''list'', ''create'', ''update'', ''destroy'', ''show''}
        then Some (spec_verb m) else None)"
  by (simp add: predefinedRoutes_def spec_verb_def)

lemma dom_predefinedRoutes:
  "fst ` set predefinedRoutes = {''list'', ''create'', ''update'', ''destroy'', ''show''}"
  by (simp add: predefinedRoutes_def)

lemma buildDefaultRoute_Own:
  "map_of predefinedRoutes m = Some v \<Longrightarrow>
   buildDefaultRoute router c apiPath m paramName
     = Inr (register router v (getDefaultRoutePath apiPath m paramName)
              (getRouteMiddlewares (middlewaresMapped router) m c)
              (getControllerMethod c m))"
  by (simp add: buildDefaultRoute_def plainObjectGet_def)

lemma buildDefaultRoute_Inr:
  "buildDefaultRoute router c apiPath m paramName = Inr router' \<Longrightarrow>
   \<exists>v. map_of predefinedRoutes m = Some v"
  by (cases "plainObjectGet predefinedRoutes m")
     (simp_all add: buildDefaultRoute_def plainObjectGet_Own)

text \<open>
  When the second loop completes, it has registered the predefined method names, in
  order, and nothing else.
\<close>

lemma buildDefaultRoutes_Inr:
  "buildDefaultRoutes router c apiPath paramName ms = Inr router' \<Longrightarrow>
   routes router'
     = routes router
       @ map (\<lambda>m. \<lparr>verb = the (map_of predefinedRoutes m),
                   path = getDefaultRoutePath apiPath m paramName,
                   chain = fst (getRouteMiddlewares (middlewaresMapped router) m c),
                   handler = getControllerMethod c m\<rparr>)
             (filter (\<lambda>m. m \<in> fst ` set predefinedRoutes) ms)"
proof (induction ms arbitrary: router)
  case Nil
  then show ?case by simp
next
  case (Cons m ms)
  show ?case
  proof (cases "plainObjectGet predefinedRoutes m = Undefined")
    case True
    then have "map_of predefinedRoutes m = None" by (rule plainObjectGet_Undefined)
    then have "m \<notin> fst ` set predefinedRoutes" by (simp add: map_of_eq_None_iff)
    with True Cons show ?thesis by simp
  next
    case False
    with Cons.prems obtain w where
      w: "buildDefaultRoute router c apiPath m paramName = Inr w"
      and rest: "buildDefaultRoutes w c apiPath paramName ms = Inr router'"
      by (auto split: sum.splits)
    from w obtain v where v: "map_of predefinedRoutes m = Some v"
      using buildDefaultRoute_Inr by blast
    then have mem: "m \<in> fst ` set predefinedRoutes"
      by (metis map_of_eq_None_iff option.distinct(1))
    from w v have weq: "w = register router v (getDefaultRoutePath apiPath m paramName)
              (getRouteMiddlewares (middlewaresMapped router) m c)
              (getControllerMethod c m)"
      by (simp add: buildDefaultRoute_Own)
    from Cons.IH [OF rest] weq v mem show ?thesis
      by (simp add: register_routes register_middlewaresMapped)
  qed
qed

text \<open>
  The second loop completes when no method name is one that the table inherits from
  \<open>Object.prototype\<close>.
\<close>

lemma buildDefaultRoutes_completes:
  "\<forall>m\<in>set ms. m \<notin> set objectPrototypeFunctions \<and> m \<noteq> ''__proto__'' \<Longrightarrow>
   \<exists>router'. buildDefaultRoutes router c apiPath paramName ms = Inr router'"
proof (induction ms arbitrary: router)
  case Nil
  then show ?case by simp
next
  case (Cons m ms)
  then have rest: "\<And>w. \<exists>router'. buildDefaultRoutes w c apiPath paramName ms = Inr router'"
    by simp
  show ?case
  proof (cases "map_of predefinedRoutes m")
    case None
    with Cons.prems have "plainObjectGet predefinedRoutes m = Undefined"
      by (simp add: plainObjectGet_def)
    with rest show ?thesis by simp
  next
    case (Some v)
    then have "plainObjectGet predefinedRoutes m = Own v" by (simp add: plainObjectGet_Own)
    with Some rest show ?thesis by (simp add: buildDefaultRoute_Own)
  qed
qed

lemma buildController_loaded:
  assumes "require entries (upperCaseFirst e (camelCase e folderName) @ ''Controller'')
             = Some controllerData"
      and "map_of controllerData (upperCaseFirst e (camelCase e folderName) @ ''Controller'')
             = Some c"
  shows "buildController e folderName entries router apiPath
           = buildDefaultRoutes
               (buildCustomRoutes e router c (apiPath @ ''/'' @ folderName) (methodNames c))
               c (apiPath @ ''/'' @ folderName) (camelCase e folderName @ ''Id'')
               (methodNames c)"
  using assms by (simp add: buildController.simps)

lemma buildSubFolderRoutes_skips_files:
  "buildSubFolderRoutes e entries router apiPath
     = buildSubFolderRoutes e (filter (\<lambda>(name, node). \<not> isFile node) entries) router apiPath"
proof (induction entries arbitrary: router)
  case Nil
  then show ?case by simp
next
  case (Cons entry entries)
  obtain name node where entry: "entry = (name, node)" by (cases entry)
  show ?case
  proof (cases node)
    case (File m)
    with entry Cons show ?thesis by simp
  next
    case (Dir sub)
    with entry Cons show ?thesis by (simp split: sum.splits)
  qed
qed

subsection \<open>The conventions\<close>

text \<open>
  C1. For a method name of the predefined set, \<open>buildDefaultRoute\<close> never throws and
  registers one route, for the wrapped method, under the verb of the fixed mapping
  (list to get, create to post, update to patch, destroy to delete, show to get);
  and when the second loop of \<open>buildController\<close> completes, every predefined name
  among the method names of the controller has such a route on the router.
\<close>

theorem predefined_route_verb:
  assumes "m \<in> {''list'', ''create'', ''update'', ''destroy'', ''show''}"
  shows "(\<exists>router' r. buildDefaultRoute router c apiPath m paramName = Inr router'
            \<and> routes router' = routes router @ [r]
            \<and> handler r = getControllerMethod c m \<and> verb r = spec_verb m)
         \<and> (buildDefaultRoutes router c apiPath paramName ms = Inr router'' \<and> m \<in> set ms
              \<longrightarrow> (\<exists>r\<in>set (routes router'').
                     handler r = getControllerMethod c m \<and> verb r = spec_verb m))"
proof
  from assms have v: "map_of predefinedRoutes m = Some (spec_verb m)"
    by (simp add: map_of_predefinedRoutes)
  show "\<exists>router' r. buildDefaultRoute router c apiPath m paramName = Inr router'
            \<and> routes router' = routes router @ [r]
            \<and> handler r = getControllerMethod c m \<and> verb r = spec_verb m"
    by (simp add: buildDefaultRoute_Own [OF v] register_routes)
  show "buildDefaultRoutes router c apiPath paramName ms = Inr router'' \<and> m \<in> set ms
          \<longrightarrow> (\<exists>r\<in>set (routes router'').
                 handler r = getControllerMethod c m \<and> verb r = spec_verb m)"
  proof
    assume a: "buildDefaultRoutes router c apiPath paramName ms = Inr router'' \<and> m \<in> set ms"
    from assms have "m \<in> fst ` set predefinedRoutes" by (simp add: dom_predefinedRoutes)
    with a have "m \<in> set (filter (\<lambda>m. m \<in> fst ` set predefinedRoutes) ms)" by simp
    then have "\<lparr>verb = the (map_of predefinedRoutes m),
                path = getDefaultRoutePath apiPath m paramName,
                chain = fst (getRouteMiddlewares (middlewaresMapped router) m c),
                handler = getControllerMethod c m\<rparr> \<in> set (routes router'')"
      using buildDefaultRoutes_Inr [of router c apiPath paramName ms router''] a
      by (simp del: set_filter)
    then show "\<exists>r\<in>set (routes router'').
                 handler r = getControllerMethod c m \<and> verb r = spec_verb m"
      using v by force
  qed
qed

theorem predefined_route_verb_witness:
  "''destroy'' \<in> {''list'', ''create'', ''update'', ''destroy'', ''show''}
   \<and> (\<exists>router' r. buildDefaultRoute world0 usersController ''/api/users'' ''destroy'' ''usersId''
                     = Inr router'
          \<and> routes router' = routes world0 @ [r]
          \<and> handler r = getControllerMethod usersController ''destroy''
          \<and> verb r = ''delete'')
   \<and> (\<exists>router''. buildDefaultRoutes world0 usersController ''/api/users'' ''usersId''
                     (methodNames usersController) = Inr router''
          \<and> ''destroy'' \<in> set (methodNames usersController)
          \<and> (\<exists>r\<in>set (routes router'').
                 handler r = getControllerMethod usersController ''destroy''
                 \<and> verb r = ''delete''))"
proof -
  have m: "''destroy'' \<in> {''list'', ''create'', ''update'', ''destroy'', ''show''}" by simp
  have ms: "''destroy'' \<in> set (methodNames usersController)"
    by (simp add: methodNames_def usersController_def ignoredKeys_def)
  have "routeTable (buildDefaultRoutes world0 usersController ''/api/users'' ''usersId''
                     (methodNames usersController)) \<noteq> None"
    by code_simp
  then obtain router'' where
    r: "buildDefaultRoutes world0 usersController ''/api/users'' ''usersId''
          (methodNames usersController) = Inr router''"
    by (cases "buildDefaultRoutes world0 usersController ''/api/users'' ''usersId''
                 (methodNames usersController)") (simp_all add: routeTable_def)
  have v: "spec_verb ''destroy'' = ''delete''" by (simp add: spec_verb_def)
  from predefined_route_verb
         [OF m, of world0 usersController "''/api/users''" "''usersId''"
            "methodNames usersController" router'']
       r ms m v
  show ?thesis by auto
qed

text \<open>
  C2, as amended. For every controller that is built, the predefined methods update,
  destroy and show are registered at the controller path followed by one parameter
  segment, \<open>/:\<close> and the camelCase of the folder name and \<open>Id\<close> (for the folder \<open>users\<close>,
  \<open>/users/:usersId\<close>); list and create are registered at the bare controller path. The
  second loop registers these routes, in the order of the method names, and no other.
\<close>

theorem buildController_default_paths:
  assumes "require entries (upperCaseFirst e (camelCase e folderName) @ ''Controller'')
             = Some controllerData"
      and "map_of controllerData (upperCaseFirst e (camelCase e folderName) @ ''Controller'')
             = Some c"
      and "buildController e folderName entries router apiPath = Inr router'"
  shows "routes router'
           = routes (buildCustomRoutes e router c (apiPath @ ''/'' @ folderName) (methodNames c))
             @ map (\<lambda>m. \<lparr>verb = spec_verb m,
                         path = (if m \<in> {''update'', ''destroy'', ''show''}
                                 then apiPath @ ''/'' @ folderName
                                        @ ''/:'' @ camelCase e folderName @ ''Id''
                                 else apiPath @ ''/'' @ folderName),
                         chain = fst (getRouteMiddlewares (middlewaresMapped router) m c),
                         handler = getControllerMethod c m\<rparr>)
                   (filter (\<lambda>m. m \<in> {''list'', ''create'', ''update'', ''destroy'', ''show''})
                           (methodNames c))"
proof -
  let ?base = "apiPath @ ''/'' @ folderName"
  let ?w = "buildCustomRoutes e router c ?base (methodNames c)"
  from assms have "buildDefaultRoutes ?w c ?base (camelCase e folderName @ ''Id'')
                     (methodNames c) = Inr router'"
    by (simp add: buildController_loaded)
  then have "routes router'
     = routes ?w
       @ map (\<lambda>m. \<lparr>verb = the (map_of predefinedRoutes m),
                   path = getDefaultRoutePath ?base m (camelCase e folderName @ ''Id''),
                   chain = fst (getRouteMiddlewares (middlewaresMapped ?w) m c),
                   handler = getControllerMethod c m\<rparr>)
             (filter (\<lambda>m. m \<in> fst ` set predefinedRoutes) (methodNames c))"
    by (rule buildDefaultRoutes_Inr)
  moreover have "map (\<lambda>m. \<lparr>verb = the (map_of predefinedRoutes m),
                   path = getDefaultRoutePath ?base m (camelCase e folderName @ ''Id''),
                   chain = fst (getRouteMiddlewares (middlewaresMapped ?w) m c),
                   handler = getControllerMethod c m\<rparr>)
             (filter (\<lambda>m. m \<in> fst ` set predefinedRoutes) (methodNames c))
     = map (\<lambda>m. \<lparr>verb = spec_verb m,
                 path = (if m \<in> {''update'', ''destroy'', ''show''}
                         then ?base @ ''/:'' @ camelCase e folderName @ ''Id''
                         else ?base),
                 chain = fst (getRouteMiddlewares (middlewaresMapped router) m c),
                 handler = getControllerMethod c m\<rparr>)
           (filter (\<lambda>m. m \<in> {''list'', ''create'', ''update'', ''destroy'', ''show''})
                   (methodNames c))"
    unfolding dom_predefinedRoutes
    by (rule map_cong [OF refl])
       (auto simp: map_of_predefinedRoutes getDefaultRoutePath_def routeWithParams_def
                   buildCustomRoutes_middlewaresMapped)
  ultimately show ?thesis by simp
qed

theorem buildController_default_paths_witness:
  "require usersFolder (upperCaseFirst sampleEnv (camelCase sampleEnv ''users'') @ ''Controller'')
     = Some [(''UsersController'', usersController)]
   \<and> (\<exists>router'. buildController sampleEnv ''users'' usersFolder world0 ''/api'' = Inr router'
         \<and> map path (routes router')
             = map path (routes (buildCustomRoutes sampleEnv world0 usersController
                                   ''/api/users'' (methodNames usersController)))
               @ [''/api/users'', ''/api/users/:usersId'', ''/api/users'',
                  ''/api/users/:usersId'', ''/api/users/:usersId''])"
proof -
  have req: "require usersFolder
               (upperCaseFirst sampleEnv (camelCase sampleEnv ''users'') @ ''Controller'')
             = Some [(''UsersController'', usersController)]"
    by (simp add: require_def usersFolder_def sampleEnv_def toUpperCase_def)
  have exp: "map_of [(''UsersController'', usersController)]
               (upperCaseFirst sampleEnv (camelCase sampleEnv ''users'') @ ''Controller'')
             = Some usersController"
    by (simp add: sampleEnv_def toUpperCase_def)
  have "routeTable (buildController sampleEnv ''users'' usersFolder world0 ''/api'') \<noteq> None"
    by code_simp
  then obtain router' where
    r: "buildController sampleEnv ''users'' usersFolder world0 ''/api'' = Inr router'"
    by (cases "buildController sampleEnv ''users'' usersFolder world0 ''/api''")
       (simp_all add: routeTable_def)
  have ms: "filter (\<lambda>m. m \<in> {''list'', ''create'', ''update'', ''destroy'', ''show''})
              (methodNames usersController)
            = [''list'', ''show'', ''create'', ''update'', ''destroy'']"
    by (simp add: methodNames_def usersController_def ignoredKeys_def)
  have cc: "camelCase sampleEnv ''users'' = ''users''" by (simp add: sampleEnv_def)
  from buildController_default_paths [OF req exp r]
  have "map path (routes router')
          = map path (routes (buildCustomRoutes sampleEnv world0 usersController
                                ''/api/users'' (methodNames usersController)))
            @ [''/api/users'', ''/api/users/:usersId'', ''/api/users'',
               ''/api/users/:usersId'', ''/api/users/:usersId'']"
    unfolding ms cc by simp
  with req r show ?thesis by simp
qed

text \<open>
  C2 as stated fails on the name of the parameter: in the folder \<open>users\<close> the routes of
  show, update and destroy are registered at \<open>/api/users/:usersId\<close>, and no route is
  registered at \<open>/api/users/:id\<close>.
\<close>

theorem buildController_param_name_counterexample:
  "routeTable (buildController sampleEnv ''users'' usersFolder world0 ''/api'')
     = Some [(''get'', ''/api/users/count''),
             (''get'', ''/api/users/posts_by_tag/:tag/:page''),
             (''get'', ''/api/users''),
             (''get'', ''/api/users/:usersId''),
             (''post'', ''/api/users''),
             (''patch'', ''/api/users/:usersId''),
             (''delete'', ''/api/users/:usersId'')]"
  by code_simp

text \<open>
  C3, as amended. A controller method is a custom route exactly when the leading word
  of its snake_case name is one of get, post, patch, put and delete: the first loop of
  \<open>buildController\<close> registers these methods, in order, each under its leading word
  as the verb, and no other method. When the controller is built, its routes are
  these custom routes followed by the predefined ones, so a method that is neither
  gets no route.
\<close>

theorem buildController_custom_routes:
  "routes (buildCustomRoutes e router c controllerPath ms)
     = routes router
       @ map (\<lambda>m. \<lparr>verb = hd (js_split (CHR ''_'') (snakeCase e m)),
                   path = getCustomRoutePath e c controllerPath m
                            (hd (js_split (CHR ''_'') (snakeCase e m))),
                   chain = fst (getRouteMiddlewares (middlewaresMapped router) m c),
                   handler = getControllerMethod c m\<rparr>)
             (filter (\<lambda>m. hd (js_split (CHR ''_'') (snakeCase e m))
                             \<in> {''get'', ''post'', ''patch'', ''put'', ''delete''}) ms)
   \<and> (require entries (upperCaseFirst e (camelCase e folderName) @ ''Controller'')
          = Some controllerData
        \<and> map_of controllerData (upperCaseFirst e (camelCase e folderName) @ ''Controller'')
          = Some c
        \<and> buildController e folderName entries router apiPath = Inr router'
       \<longrightarrow> map handler (routes router')
             = map handler (routes router)
               @ map (getControllerMethod c)
                   (filter (\<lambda>m. hd (js_split (CHR ''_'') (snakeCase e m))
                                   \<in> {''get'', ''post'', ''patch'', ''put'', ''delete''})
                           (methodNames c))
               @ map (getControllerMethod c)
                   (filter (\<lambda>m. m \<in> {''list'', ''create'', ''update'', ''destroy'', ''show''})
                           (methodNames c)))"
proof
  have acc: "checkIsRouteMethod e
               = (\<lambda>m. hd (js_split (CHR ''_'') (snakeCase e m))
                         \<in> {''get'', ''post'', ''patch'', ''put'', ''delete''})"
    by (auto simp: checkIsRouteMethod_def getCustomRouteRequestType_def acceptedMethods_def)
  show custom: "routes (buildCustomRoutes e router c controllerPath ms)
     = routes router
       @ map (\<lambda>m. \<lparr>verb = hd (js_split (CHR ''_'') (snakeCase e m)),
                   path = getCustomRoutePath e c controllerPath m
                            (hd (js_split (CHR ''_'') (snakeCase e m))),
                   chain = fst (getRouteMiddlewares (middlewaresMapped router) m c),
                   handler = getControllerMethod c m\<rparr>)
             (filter (\<lambda>m. hd (js_split (CHR ''_'') (snakeCase e m))
                             \<in> {''get'', ''post'', ''patch'', ''put'', ''delete''}) ms)"
    for controllerPath ms
    using buildCustomRoutes_routes [of e router c controllerPath ms]
    by (simp add: acc getCustomRouteRequestType_def)
  show "require entries (upperCaseFirst e (camelCase e folderName) @ ''Controller'')
          = Some controllerData
        \<and> map_of controllerData (upperCaseFirst e (camelCase e folderName) @ ''Controller'')
          = Some c
        \<and> buildController e folderName entries router apiPath = Inr router'
       \<longrightarrow> map handler (routes router')
             = map handler (routes router)
               @ map (getControllerMethod c)
                   (filter (\<lambda>m. hd (js_split (CHR ''_'') (snakeCase e m))
                                   \<in> {''get'', ''post'', ''patch'', ''put'', ''delete''})
                           (methodNames c))
               @ map (getControllerMethod c)
                   (filter (\<lambda>m. m \<in> {''list'', ''create'', ''update'', ''destroy'', ''show''})
                           (methodNames c))"
  proof
    let ?base = "apiPath @ ''/'' @ folderName"
    let ?w = "buildCustomRoutes e router c ?base (methodNames c)"
    assume a: "require entries (upperCaseFirst e (camelCase e folderName) @ ''Controller'')
          = Some controllerData
        \<and> map_of controllerData (upperCaseFirst e (camelCase e folderName) @ ''Controller'')
          = Some c
        \<and> buildController e folderName entries router apiPath = Inr router'"
    then have "buildDefaultRoutes ?w c ?base (camelCase e folderName @ ''Id'')
                     (methodNames c) = Inr router'"
      using buildController_loaded [of entries e folderName controllerData c router apiPath]
      by metis
    then have "routes router'
       = routes ?w
         @ map (\<lambda>m. \<lparr>verb = the (map_of predefinedRoutes m),
                     path = getDefaultRoutePath ?base m (camelCase e folderName @ ''Id''),
                     chain = fst (getRouteMiddlewares (middlewaresMapped ?w) m c),
                     handler = getControllerMethod c m\<rparr>)
               (filter (\<lambda>m. m \<in> fst ` set predefinedRoutes) (methodNames c))"
      by (rule buildDefaultRoutes_Inr)
    then show "map handler (routes router')
             = map handler (routes router)
               @ map (getControllerMethod c)
                   (filter (\<lambda>m. hd (js_split (CHR ''_'') (snakeCase e m))
                                   \<in> {''get'', ''post'', ''patch'', ''put'', ''delete''})
                           (methodNames c))
               @ map (getControllerMethod c)
                   (filter (\<lambda>m. m \<in> {''list'', ''create'', ''update'', ''destroy'', ''show''})
                           (methodNames c))"
      by (simp add: custom dom_predefinedRoutes comp_def)
  qed
qed

theorem buildController_custom_routes_witness:
  "map (\<lambda>r. (verb r, path r))
       (routes (buildCustomRoutes sampleEnv world0 usersController ''/api/users''
                  (methodNames usersController)))
     = [(''get'', ''/api/users/count''), (''get'', ''/api/users/posts_by_tag/:tag/:page'')]
   \<and> require usersFolder (upperCaseFirst sampleEnv (camelCase sampleEnv ''users'') @ ''Controller'')
       = Some [(''UsersController'', usersController)]
   \<and> (\<exists>router'. buildController sampleEnv ''users'' usersFolder world0 ''/api'' = Inr router'
         \<and> map handler (routes router')
             = map (getControllerMethod usersController)
                 [''getCount'', ''getPostsByTag'', ''list'', ''show'', ''create'', ''update'',
                  ''destroy''])"
proof -
  have req: "require usersFolder
               (upperCaseFirst sampleEnv (camelCase sampleEnv ''users'') @ ''Controller'')
             = Some [(''UsersController'', usersController)]"
    by (simp add: require_def usersFolder_def sampleEnv_def toUpperCase_def)
  have exp: "map_of [(''UsersController'', usersController)]
               (upperCaseFirst sampleEnv (camelCase sampleEnv ''users'') @ ''Controller'')
             = Some usersController"
    by (simp add: sampleEnv_def toUpperCase_def)
  have "routeTable (buildController sampleEnv ''users'' usersFolder world0 ''/api'') \<noteq> None"
    by code_simp
  then obtain router' where
    r: "buildController sampleEnv ''users'' usersFolder world0 ''/api'' = Inr router'"
    by (cases "buildController sampleEnv ''users'' usersFolder world0 ''/api''")
       (simp_all add: routeTable_def)
  have ms: "methodNames usersController
              = [''list'', ''show'', ''create'', ''update'', ''destroy'', ''getCount'',
                 ''getPostsByTag'', ''helper'']"
    by (simp add: methodNames_def usersController_def ignoredKeys_def)
  have sn: "map (snakeCase sampleEnv)
              [''list'', ''show'', ''create'', ''update'', ''destroy'', ''getCount'',
               ''getPostsByTag'', ''helper'']
            = [''list'', ''show'', ''create'', ''update'', ''destroy'', ''get_count'',
               ''get_posts_by_tag'', ''helper'']"
    by (simp add: sampleEnv_def)
  have pa: "params usersController ''getCount'' = None"
           "params usersController ''getPostsByTag'' = Some [''tag'', ''page'']"
    by (simp_all add: usersController_def)
  note t = buildController_custom_routes
             [of sampleEnv world0 usersController "''/api/users''"
                 "methodNames usersController" usersFolder "''users''"
                 "[(''UsersController'', usersController)]" "''/api''" router']
  from t [THEN conjunct1]
  have first: "map (\<lambda>r. (verb r, path r))
       (routes (buildCustomRoutes sampleEnv world0 usersController ''/api/users''
                  (methodNames usersController)))
     = [(''get'', ''/api/users/count''), (''get'', ''/api/users/posts_by_tag/:tag/:page'')]"
    using sn pa unfolding ms by (simp add: world0_def getCustomRoutePath_def)
  from t [THEN conjunct2] req exp r
  have "map handler (routes router')
             = map (getControllerMethod usersController)
                 [''getCount'', ''getPostsByTag'', ''list'', ''show'', ''create'', ''update'',
                  ''destroy'']"
    using sn unfolding ms by (simp add: world0_def)
  with first req r show ?thesis by simp
qed

text \<open>
  C3 as stated fails at a method that is neither predefined nor starts with an
  accepted verb: the controller of the folder \<open>tools\<close> has the two methods \<open>helper\<close>
  and \<open>fetchAll\<close>, and building it registers no route at all.
\<close>

theorem buildController_unregistered_counterexample:
  "methodNames toolsController = [''helper'', ''fetchAll'']
   \<and> ''helper'' \<notin> fst ` set predefinedRoutes
   \<and> ''fetchAll'' \<notin> fst ` set predefinedRoutes
   \<and> routeTable (buildController sampleEnv ''tools'' toolsFolder world0 ''/api'') = Some []"
  by code_simp

text \<open>
  C5. The route that \<open>buildCustomRoute\<close> registers for a method has the path: the
  controller path, a slash, the snake_case of the method name with the leading verb
  prefix (the verb and an underscore) removed, and then \<open>/:param\<close> for each parameter
  that the controller declares for the method, in the order of declaration.
\<close>

theorem buildCustomRoute_path:
  "\<exists>r. routes (buildCustomRoute e router c controllerPath m) = routes router @ [r]
       \<and> verb r = getCustomRouteRequestType e m
       \<and> path r = controllerPath @ ''/''
                    @ removeVerbPrefix (getCustomRouteRequestType e m) (snakeCase e m)
                    @ concat (map (\<lambda>p. ''/:'' @ p) (declaredParams c m))"
  by (simp add: buildCustomRoute_def Let_def register_routes getCustomRoutePath_spec)

theorem buildCustomRoute_path_witness:
  "\<exists>r. routes (buildCustomRoute sampleEnv world0 usersController ''/api/users''
                  ''getPostsByTag'') = [r]
       \<and> verb r = ''get''
       \<and> path r = ''/api/users/posts_by_tag/:tag/:page''"
proof -
  have v: "getCustomRouteRequestType sampleEnv ''getPostsByTag'' = ''get''"
    by (simp add: getCustomRouteRequestType_def sampleEnv_def)
  have s: "snakeCase sampleEnv ''getPostsByTag'' = ''get_posts_by_tag''"
    by (simp add: sampleEnv_def)
  have p: "declaredParams usersController ''getPostsByTag'' = [''tag'', ''page'']"
    by (simp add: declaredParams_def usersController_def)
  have w: "routes world0 = []" by (simp add: world0_def)
  from buildCustomRoute_path
         [of sampleEnv world0 usersController "''/api/users''" "''getPostsByTag''"]
  show ?thesis
    unfolding v s p w by (simp add: removeVerbPrefix_def)
qed

text \<open>
  The whole scan of the example tree: the folder \<open>admin\<close> has no controller and is a
  namespace for \<open>users\<close>, the controller of \<open>tools\<close> has no method that is a route.
\<close>

lemma build_sampleEnv:
  "routeTable (build sampleEnv world0)
     = Some [(''get'', ''/api/admin/users/count''),
             (''get'', ''/api/admin/users/posts_by_tag/:tag/:page''),
             (''get'', ''/api/admin/users''),
             (''get'', ''/api/admin/users/:usersId''),
             (''post'', ''/api/admin/users''),
             (''patch'', ''/api/admin/users/:usersId''),
             (''delete'', ''/api/admin/users/:usersId'')]"
  by code_simp

text \<open>
  C10. When the controller module of a folder fails to load, \<open>buildController\<close> does
  not fail for that: it scans the folder as a namespace, that is, it builds the
  subfolders of the folder, in order, under the API path extended by the folder name,
  and passes over the plain files. A folder without subfolders leaves the router as
  it was.
\<close>

theorem buildController_namespace:
  assumes "require entries (upperCaseFirst e (camelCase e folderName) @ ''Controller'') = None"
  shows "buildController e folderName entries router apiPath
           = buildSubFolderRoutes e (filter (\<lambda>(name, node). \<not> isFile node) entries) router
               (apiPath @ ''/'' @ folderName)
         \<and> buildSubFolderRoutes e ((sub, Dir subEntries) # rest) router
               (apiPath @ ''/'' @ folderName)
           = (case buildController e sub subEntries router (apiPath @ ''/'' @ folderName) of
                Inl err \<Rightarrow> Inl err
              | Inr router' \<Rightarrow>
                  buildSubFolderRoutes e rest router' (apiPath @ ''/'' @ folderName))
         \<and> (filter (\<lambda>(name, node). \<not> isFile node) entries = []
              \<longrightarrow> buildController e folderName entries router apiPath = Inr router)"
proof -
  from assms have "buildController e folderName entries router apiPath
           = buildSubFolderRoutes e entries router (apiPath @ ''/'' @ folderName)"
    by (simp add: buildController.simps)
  then have scan: "buildController e folderName entries router apiPath
           = buildSubFolderRoutes e (filter (\<lambda>(name, node). \<not> isFile node) entries) router
               (apiPath @ ''/'' @ folderName)"
    using buildSubFolderRoutes_skips_files [of e entries router] by simp
  then have "filter (\<lambda>(name, node). \<not> isFile node) entries = []
              \<longrightarrow> buildController e folderName entries router apiPath = Inr router"
    by simp
  moreover have "buildSubFolderRoutes e ((sub, Dir subEntries) # rest) router
               (apiPath @ ''/'' @ folderName)
           = (case buildController e sub subEntries router (apiPath @ ''/'' @ folderName) of
                Inl err \<Rightarrow> Inl err
              | Inr router' \<Rightarrow>
                  buildSubFolderRoutes e rest router' (apiPath @ ''/'' @ folderName))"
    by (rule buildSubFolderRoutes.simps)
  ultimately show ?thesis using scan by blast
qed

theorem buildController_namespace_witness:
  "require adminFolder (upperCaseFirst sampleEnv (camelCase sampleEnv ''admin'') @ ''Controller'')
     = None
   \<and> buildController sampleEnv ''admin'' adminFolder world0 ''/api''
       = buildSubFolderRoutes sampleEnv [(''users'', Dir usersFolder)] world0 ''/api/admin''
   \<and> routeTable (buildController sampleEnv ''admin'' adminFolder world0 ''/api'')
       = Some [(''get'', ''/api/admin/users/count''),
               (''get'', ''/api/admin/users/posts_by_tag/:tag/:page''),
               (''get'', ''/api/admin/users''),
               (''get'', ''/api/admin/users/:usersId''),
               (''post'', ''/api/admin/users''),
               (''patch'', ''/api/admin/users/:usersId''),
               (''delete'', ''/api/admin/users/:usersId'')]"
proof -
  have req: "require adminFolder
               (upperCaseFirst sampleEnv (camelCase sampleEnv ''admin'') @ ''Controller'') = None"
    by (simp add: require_def adminFolder_def sampleEnv_def toUpperCase_def)
  have dirs: "filter (\<lambda>(name, node). \<not> isFile node) adminFolder = [(''users'', Dir usersFolder)]"
    by (simp add: adminFolder_def)
  have tbl: "routeTable (buildController sampleEnv ''admin'' adminFolder world0 ''/api'')
       = Some [(''get'', ''/api/admin/users/count''),
               (''get'', ''/api/admin/users/posts_by_tag/:tag/:page''),
               (''get'', ''/api/admin/users''),
               (''get'', ''/api/admin/users/:usersId''),
               (''post'', ''/api/admin/users''),
               (''patch'', ''/api/admin/users/:usersId''),
               (''delete'', ''/api/admin/users/:usersId'')]"
    by code_simp
  from buildController_namespace
         [of adminFolder sampleEnv "''admin''" world0 "''/api''", OF req, THEN conjunct1]
  have "buildController sampleEnv ''admin'' adminFolder world0 ''/api''
       = buildSubFolderRoutes sampleEnv [(''users'', Dir usersFolder)] world0 ''/api/admin''"
    unfolding dirs by simp
  with req tbl show ?thesis by simp
qed

end
